theory Spec2Isabelle
  imports Complex_Main "HOL-Library.Log_Nat"
begin

section \<open>Time, durations and number rendering\<close>

text \<open>
  The store reads the clock through \<^verbatim>\<open>time.Now()\<close> and \<^verbatim>\<open>time.Until\<close>. In this
  sequential model every operation that reads the clock receives the reading as an
  argument \<open>now\<close>. An instant is an integer number of nanoseconds counted from the zero
  instant of Go's \<^verbatim>\<open>time.Time\<close> (the zero \<^verbatim>\<open>Time\<close> is the instant \<open>0\<close>). A
  \<^verbatim>\<open>time.Duration\<close> is a signed 64-bit count of nanoseconds; products of durations wrap
  around (\<open>wrap64\<close>), and the difference of two instants saturates, as \<^verbatim>\<open>Time.Sub\<close>
  does. Go's \<^verbatim>\<open>int\<close> is taken to be 64 bits wide.
\<close>

type_synonym Time = int
type_synonym Duration = int

definition Second :: Duration where
  "Second = 1000000000"

definition minDuration :: Duration where
  "minDuration = - (2 ^ 63)"

definition maxDuration :: Duration where
  "maxDuration = 2 ^ 63 - 1"

definition wrap64 :: "int \<Rightarrow> int" where
  "wrap64 x = (x + 2 ^ 63) mod 2 ^ 64 - 2 ^ 63"

definition IsZero :: "Time \<Rightarrow> bool" where
  "IsZero t = (t = 0)"

definition After :: "Time \<Rightarrow> Time \<Rightarrow> bool" where
  \<comment> \<open>\<^verbatim>\<open>t.After(u)\<close>\<close>
  "After t u = (u < t)"

definition Add :: "Time \<Rightarrow> Duration \<Rightarrow> Time" where
  "Add t d = t + d"

definition Until :: "Time \<Rightarrow> Time \<Rightarrow> Duration" where
  \<comment> \<open>\<^verbatim>\<open>time.Until(t)\<close> at clock reading \<open>now\<close>: \<^verbatim>\<open>t.Sub(now)\<close>, saturating\<close>
  "Until t now = max minDuration (min maxDuration (t - now))"

text \<open>
  \<^verbatim>\<open>Duration.Seconds\<close> computes in \<^verbatim>\<open>float64\<close>:
  \<^verbatim>\<open>sec := d / Second; nsec := d % Second; return float64(sec) + float64(nsec)/1e9\<close>.
  A \<^verbatim>\<open>float64\<close> is modelled by the rational it denotes, and \<open>float64\<close> rounds a
  rational to the nearest number with a 53-bit significand, ties to even (the exponent
  range of the format is not reached by the numbers that occur here). Go's integer
  division truncates towards zero (\<open>quo\<close>, \<open>rem\<close>), and so does the conversion
  \<^verbatim>\<open>int(f)\<close> (\<open>int_of_float\<close>).
\<close>

definition pow2 :: "int \<Rightarrow> rat" where
  "pow2 e = (if 0 \<le> e then 2 ^ nat e else 1 / 2 ^ nat (- e))"

definition roundEven :: "rat \<Rightarrow> int" where
  "roundEven y =
     (let f = \<lfloor>y\<rfloor>; r = y - of_int f
      in if r < 1 / 2 then f
         else if 1 / 2 < r then f + 1
         else if even f then f else f + 1)"

definition binade :: "rat \<Rightarrow> int" where
  \<comment> \<open>for \<open>0 < x\<close>: the \<open>e\<close> with \<open>2 ^ e \<le> x < 2 ^ (e + 1)\<close>\<close>
  "binade x =
     (if 1 \<le> x then bitlen \<lfloor>x\<rfloor> - 1
      else - bitlen (\<lceil>1 / x\<rceil> - 1))"

definition float64 :: "rat \<Rightarrow> rat" where
  "float64 x =
     (if x = 0 then 0
      else let u = pow2 (binade \<bar>x\<bar> - 52)
           in sgn x * of_int (roundEven (\<bar>x\<bar> / u)) * u)"

definition quo :: "int \<Rightarrow> int \<Rightarrow> int" where
  "quo a b = sgn a * sgn b * (\<bar>a\<bar> div \<bar>b\<bar>)"

definition rem :: "int \<Rightarrow> int \<Rightarrow> int" where
  "rem a b = a - b * quo a b"

definition Seconds :: "Duration \<Rightarrow> rat" where
  "Seconds d =
     (let sec = quo d Second; nsec = rem d Second
      in float64 (float64 (of_int sec) + float64 (float64 (of_int nsec) / float64 1000000000)))"

definition int_of_float :: "rat \<Rightarrow> int" where
  "int_of_float f = (if 0 \<le> f then \<lfloor>f\<rfloor> else \<lceil>f\<rceil>)"

text \<open>\<^verbatim>\<open>strconv.Itoa\<close>: the decimal digits, with a leading minus sign for a negative number.\<close>

definition digit :: "nat \<Rightarrow> char" where
  "digit d = ''0123456789'' ! d"

fun digits :: "nat \<Rightarrow> string" where
  "digits n = (if n < 10 then [digit n] else digits (n div 10) @ [digit (n mod 10)])"

definition Itoa :: "int \<Rightarrow> string" where
  "Itoa i = (if i < 0 then CHR ''-'' # digits (nat (- i)) else digits (nat i))"

section \<open>The store\<close>

text \<open>
  \<^verbatim>\<open>StoreData\<close> holds the payload (field \<^verbatim>\<open>value\<close>, here \<open>value_field\<close>) and the
  expiration instant; the zero instant means that no expiration is set. The \<^verbatim>\<open>Store\<close> is
  its map from keys to entries; the lock \<^verbatim>\<open>mu\<close> has no content in a sequential model.
  Every operation returns its result together with the store it leaves behind.
\<close>

record StoreData =
  value_field :: string
  expiresAt :: Time

record Store =
  data :: "string \<rightharpoonup> StoreData"

definition Expire :: "string \<Rightarrow> int \<Rightarrow> Time \<Rightarrow> Store \<Rightarrow> string \<times> Store" where
  "Expire key seconds now s =
     (case data s key of
        None \<Rightarrow> (''ERR data not found'', s)
      | Some v \<Rightarrow>
          (''OK'',
           s\<lparr>data := (data s)(key \<mapsto> v\<lparr>expiresAt := Add now (wrap64 (Second * seconds))\<rparr>)\<rparr>))"

definition Set :: "string \<Rightarrow> string \<Rightarrow> Time \<Rightarrow> Store \<Rightarrow> string \<times> Store" where
  "Set key v now s =
     (let s1 = s\<lparr>data := (data s)(key \<mapsto> \<lparr>value_field = v, expiresAt = 0\<rparr>)\<rparr>;
          s2 = snd (Expire key 5 now s1)
      in (''OK'', s2))"

definition TTL :: "string \<Rightarrow> Time \<Rightarrow> Store \<Rightarrow> string \<times> Store" where
  "TTL key now s =
     (case data s key of
        None \<Rightarrow> (''-1'', s)
      | Some v \<Rightarrow>
          if IsZero (expiresAt v) then (''Data never expires'', s)
          else let diff = Until (expiresAt v) now
               in if diff \<le> 0 then (''-1'', s\<lparr>data := (data s)(key := None)\<rparr>)
                  else (Itoa (int_of_float (Seconds diff)), s))"

definition Get :: "string \<Rightarrow> Time \<Rightarrow> Store \<Rightarrow> string \<times> Store" where
  "Get key now s =
     (case data s key of
        None \<Rightarrow> (''ERR data doesn't exist'', s)
      | Some storeData \<Rightarrow>
          let (expired, s') = TTL key now s
          in if expired = ''-1'' then (''ERR data expired'', s')
             else (value_field storeData, s'))"

definition Del :: "string \<Rightarrow> Store \<Rightarrow> Store" where
  "Del key s = s\<lparr>data := (data s)(key := None)\<rparr>"

definition Exists :: "string \<Rightarrow> Store \<Rightarrow> bool \<times> Store" where
  "Exists key s = (data s key \<noteq> None, s)"

text \<open>
  \<^verbatim>\<open>cleanup\<close> reads the clock once and ranges over the map, deleting the entry in hand
  when its expiration is set and the clock reading is after it. \<open>cleanup_entry\<close> is the
  body of the loop for one key, \<open>cleanup_keys\<close> the loop over the keys in the order in
  which the range statement yields them, and \<open>cleanup\<close> its outcome, which does not
  depend on that order (\<open>cleanup_keys_eq\<close> below).
\<close>

definition cleanup_entry :: "Time \<Rightarrow> string \<Rightarrow> (string \<rightharpoonup> StoreData) \<Rightarrow> (string \<rightharpoonup> StoreData)" where
  "cleanup_entry now k m =
     (case m k of
        None \<Rightarrow> m
      | Some v \<Rightarrow> if \<not> IsZero (expiresAt v) \<and> After now (expiresAt v) then m(k := None) else m)"

definition cleanup_keys :: "Time \<Rightarrow> string list \<Rightarrow> Store \<Rightarrow> Store" where
  "cleanup_keys now ks s = s\<lparr>data := fold (cleanup_entry now) ks (data s)\<rparr>"

definition cleanup :: "Time \<Rightarrow> Store \<Rightarrow> Store" where
  "cleanup now s = s\<lparr>data := (\<lambda>k. cleanup_entry now k (data s) k)\<rparr>"

section \<open>The dispatcher\<close>

definition Execute :: "string \<Rightarrow> string list \<Rightarrow> Time \<Rightarrow> Store \<Rightarrow> string \<times> Store" where
  "Execute command args now s =
     (if command = ''PING'' then (''PONG'', s)
      else if command = ''SET'' then
        (if length args \<noteq> 2 then (''ERR wrong number of arguments for 'set' command'', s)
         else (''OK'', snd (Set (args ! 0) (args ! 1) now s)))
      else if command = ''GET'' then
        (if length args \<noteq> 1 then (''ERR wrong number of arguments for 'get' command'', s)
         else let (variable, s') = Get (args ! 0) now s
              in if variable = '''' then (''ERR property doesn't exist in store'', s')
                 else (variable, s'))
      else if command = ''DEL'' then
        (if length args \<noteq> 1 then (''ERR wrong number of arguments for 'del' command'', s)
         else (''OK'', Del (args ! 0) s))
      else if command = ''EXISTS'' then
        (if length args \<noteq> 1 then (''ERR wrong number of arguments for 'exists' command'', s)
         else let (exists, s') = Exists (args ! 0) s
              in if exists then (''Yes'', s') else (''No'', s'))
      else (''ERR unknown command'', s))"

section \<open>Facts about rounding, durations and decimal rendering\<close>

text \<open>
  Rounding to the nearest \<^verbatim>\<open>float64\<close> never crosses a whole number below \<open>2 ^ 53\<close>:
  such numbers are themselves representable. This brackets \<^verbatim>\<open>Duration.Seconds\<close>.
\<close>

lemma roundEven_of_int: "roundEven (of_int k) = k"
  by (simp add: roundEven_def)

lemma roundEven_lower: "of_int a \<le> y \<Longrightarrow> a \<le> roundEven y"
proof -
  assume "of_int a \<le> y"
  then have "a \<le> \<lfloor>y\<rfloor>" by (simp add: le_floor_iff)
  then show ?thesis by (simp add: roundEven_def Let_def)
qed

lemma roundEven_upper: "y \<le> of_int b \<Longrightarrow> roundEven y \<le> b"
proof (cases "y = of_int b")
  case True
  then show ?thesis by (simp add: roundEven_of_int)
next
  case False
  assume "y \<le> of_int b"
  with False have "y < of_int b" by simp
  then have "\<lfloor>y\<rfloor> < b" by (simp add: floor_less_iff)
  then show ?thesis
    by (simp add: roundEven_def Let_def)
qed

lemma pow2_pos: "0 < pow2 e"
  by (simp add: pow2_def)

lemma binade_bound:
  assumes "0 < x" and "x < 2 ^ n / 2 ^ j"
  shows "binade x < int n - int j"
proof (cases "1 \<le> x")
  case True
  have "(1::rat) < 2 ^ n / 2 ^ j" using True assms(2) by (rule le_less_trans)
  then have "(2::rat) ^ j < 2 ^ n" by (simp add: field_simps)
  then have j: "j < n" by simp
  have "(2::rat) ^ n / 2 ^ j = 2 ^ (n - j)" using j by (simp add: power_diff)
  then have "x < 2 ^ (n - j)" using assms(2) by simp
  then have "\<lfloor>x\<rfloor> < 2 ^ (n - j)" by (simp add: floor_less_iff)
  then have "bitlen \<lfloor>x\<rfloor> \<le> int (n - j)" by (simp add: bitlen_le_iff_power)
  then show ?thesis using True j by (simp add: binade_def)
next
  case False
  define m where "m = bitlen (\<lceil>1 / x\<rceil> - 1)"
  have "1 < 1 / x" using False assms(1) by (simp add: field_simps)
  then have c: "1 < \<lceil>1 / x\<rceil>" by (simp add: less_ceiling_iff)
  then have "\<lceil>1 / x\<rceil> - 1 < 2 ^ nat m" using bitlen_bounds [of "\<lceil>1 / x\<rceil> - 1"] by (simp add: m_def)
  then have "\<lceil>1 / x\<rceil> \<le> 2 ^ nat m" by simp
  then have "1 / x \<le> of_int (2 ^ nat m)" by (simp only: ceiling_le_iff)
  then have "1 / x \<le> 2 ^ nat m" by simp
  then have "1 \<le> 2 ^ nat m * x" using assms(1) by (simp add: field_simps)
  also have "\<dots> < 2 ^ nat m * (2 ^ n / 2 ^ j)"
    using assms(2) by (intro mult_strict_left_mono) simp_all
  finally have "(2::rat) ^ j < 2 ^ (nat m + n)" by (simp add: field_simps power_add)
  then have "j < nat m + n" by simp
  moreover have "0 \<le> m" by (simp add: m_def bitlen_nonneg)
  ultimately show ?thesis using False by (simp add: binade_def m_def [symmetric])
qed

lemma pow2_scale: "e \<le> - int j \<Longrightarrow> of_int k / 2 ^ j / pow2 e = of_int (k * 2 ^ (nat (- e) - j))"
proof -
  assume e: "e \<le> - int j"
  then have "nat (- e) = (nat (- e) - j) + j" by simp
  then have "(2::rat) ^ nat (- e) = 2 ^ (nat (- e) - j) * 2 ^ j" by (metis power_add)
  then show ?thesis using e by (cases "e = 0") (simp_all add: pow2_def)
qed

lemma float64_between_dyadic:
  assumes a: "0 \<le> a" and b: "b < 2 ^ 53"
    and lo: "of_int a / 2 ^ j \<le> x" and hi: "x \<le> of_int b / 2 ^ j"
  shows "of_int a / 2 ^ j \<le> float64 x \<and> float64 x \<le> of_int b / 2 ^ j"
proof (cases "x = 0")
  case True
  then show ?thesis using lo hi by (simp add: float64_def)
next
  case False
  have "(0::rat) \<le> of_int a / 2 ^ j" using a by simp
  then have xpos: "0 < x" using lo False by linarith
  have "(of_int b :: rat) < of_int (2 ^ 53)" using b by (simp only: of_int_less_iff)
  then have "(of_int b :: rat) / 2 ^ j < 2 ^ 53 / 2 ^ j" by (simp add: divide_strict_right_mono)
  then have "x < 2 ^ 53 / 2 ^ j" using hi by linarith
  then have e: "binade x - 52 \<le> - int j" using binade_bound [OF xpos, of 53 j] by simp
  define u where "u = pow2 (binade x - 52)"
  have upos: "0 < u" by (simp add: u_def pow2_pos)
  define m :: int where "m = 2 ^ (nat (- (binade x - 52)) - j)"
  have au: "of_int a / 2 ^ j / u = of_int (a * m)" and bu: "of_int b / 2 ^ j / u = of_int (b * m)"
    unfolding u_def m_def using pow2_scale [OF e] by blast+
  have "of_int a / 2 ^ j / u \<le> x / u" using lo upos by (intro divide_right_mono) simp_all
  then have "of_int (a * m) \<le> x / u" unfolding au .
  then have l: "a * m \<le> roundEven (x / u)" by (rule roundEven_lower)
  have "x / u \<le> of_int b / 2 ^ j / u" using hi upos by (intro divide_right_mono) simp_all
  then have "x / u \<le> of_int (b * m)" unfolding bu .
  then have h: "roundEven (x / u) \<le> b * m" by (rule roundEven_upper)
  have f: "float64 x = of_int (roundEven (x / u)) * u"
    using xpos by (simp add: float64_def u_def Let_def)
  have c1: "of_int (a * m) * u \<le> of_int (roundEven (x / u)) * u"
    using l upos by (simp only: mult_le_cancel_right_pos of_int_le_iff)
  have c2: "of_int (roundEven (x / u)) * u \<le> of_int (b * m) * u"
    using h upos by (simp only: mult_le_cancel_right_pos of_int_le_iff)
  have c3: "of_int (a * m) * u = (of_int a :: rat) / 2 ^ j"
    using au upos by (simp add: field_simps)
  have c4: "of_int (b * m) * u = (of_int b :: rat) / 2 ^ j"
    using bu upos by (simp add: field_simps)
  show ?thesis using c1 c2 unfolding c3 c4 f by (rule conjI)
qed

lemma float64_between:
  assumes "0 \<le> a" and "b < 2 ^ 53" and "of_int a \<le> x" and "x \<le> of_int b"
  shows "of_int a \<le> float64 x \<and> float64 x \<le> of_int b"
  using float64_between_dyadic [of a b 0 x] assms by simp

lemma float64_of_int: "0 \<le> n \<Longrightarrow> n < 2 ^ 53 \<Longrightarrow> float64 (of_int n) = of_int n"
  using float64_between [of n n "of_int n"] by simp

declare digits.simps [simp del]

lemma quo_pos: "0 \<le> a \<Longrightarrow> 0 < b \<Longrightarrow> quo a b = a div b"
  by (cases "a = 0") (simp_all add: quo_def)

lemma rem_pos: "0 \<le> a \<Longrightarrow> 0 < b \<Longrightarrow> rem a b = a mod b"
  by (simp add: rem_def quo_pos minus_mult_div_eq_mod)

lemma float64_billion: "float64 1000000000 = 1000000000"
  using float64_of_int [of 1000000000] by simp

lemma Seconds_between:
  assumes "0 < d" and "d \<le> maxDuration"
  shows "of_int (d div Second) \<le> Seconds d \<and> Seconds d \<le> of_int (d div Second + 1)"
proof -
  define sec where "sec = d div Second"
  define nsec where "nsec = d mod Second"
  have sec0: "0 \<le> sec" using assms(1) by (simp add: sec_def Second_def pos_imp_zdiv_nonneg_iff)
  have "sec \<le> maxDuration div Second"
    unfolding sec_def using assms(2) by (simp add: zdiv_mono1 Second_def)
  then have sec1: "sec + 1 < 2 ^ 53" by (simp add: maxDuration_def Second_def)
  have n0: "0 \<le> nsec" and n1: "nsec < 1000000000" by (simp_all add: nsec_def Second_def)
  have fsec: "float64 (of_int sec) = of_int sec" using sec0 sec1 by (simp add: float64_of_int)
  have fnsec: "float64 (of_int nsec) = of_int nsec" using n0 n1 by (simp add: float64_of_int)
  define q where "q = float64 (of_int nsec / 1000000000)"
  have "(of_int 0 :: rat) \<le> of_int nsec / 1000000000" using n0 by simp
  moreover have "of_int nsec / 1000000000 \<le> (of_int 1 :: rat)" using n1 by simp
  ultimately have q: "of_int 0 \<le> q \<and> q \<le> of_int 1"
    unfolding q_def by (intro float64_between) simp_all
  have "of_int sec \<le> float64 (of_int sec + q) \<and> float64 (of_int sec + q) \<le> of_int (sec + 1)"
    using q sec0 sec1 by (intro float64_between) simp_all
  moreover have "Seconds d = float64 (of_int sec + q)"
    using assms(1)
    by (simp add: Seconds_def Let_def quo_pos rem_pos Second_def float64_billion
        fsec [unfolded sec_def Second_def] fnsec [unfolded nsec_def Second_def] q_def sec_def nsec_def)
  ultimately show ?thesis by (simp add: sec_def)
qed

lemma int_of_float_Seconds:
  assumes "0 < d" and "d \<le> maxDuration"
  shows "d div Second \<le> int_of_float (Seconds d) \<and> int_of_float (Seconds d) \<le> d div Second + 1"
proof -
  note b = Seconds_between [OF assms]
  have "0 \<le> d div Second" using assms(1) by (simp add: Second_def pos_imp_zdiv_nonneg_iff)
  then have "(0::rat) \<le> of_int (d div Second)" by simp
  with b have "0 \<le> Seconds d" by linarith
  then have "int_of_float (Seconds d) = \<lfloor>Seconds d\<rfloor>" by (simp add: int_of_float_def)
  moreover have "d div Second \<le> \<lfloor>Seconds d\<rfloor>" using b by (simp add: le_floor_iff)
  moreover have "\<lfloor>Seconds d\<rfloor> \<le> d div Second + 1"
    using b floor_mono [of "Seconds d" "of_int (d div Second + 1)"] by (simp del: of_int_add)
  ultimately show ?thesis by simp
qed

lemma Seconds_below:
  assumes "0 < d" and "d < 2 ^ 23 * Second"
  shows "of_int (d div Second) \<le> Seconds d \<and> Seconds d < of_int (d div Second) + 1"
proof -
  define sec where "sec = d div Second"
  define nsec where "nsec = d mod Second"
  have sec0: "0 \<le> sec" using assms(1) by (simp add: sec_def Second_def pos_imp_zdiv_nonneg_iff)
  have sec1: "sec < 2 ^ 23"
    unfolding sec_def using assms(2) by (simp add: Second_def div_less_iff_less_mult mult.commute)
  have n0: "0 \<le> nsec" and n1: "nsec \<le> 999999999" by (simp_all add: nsec_def Second_def)
  have fsec: "float64 (of_int sec) = of_int sec" using sec0 sec1 by (simp add: float64_of_int)
  have fnsec: "float64 (of_int nsec) = of_int nsec" using n0 n1 by (simp add: float64_of_int)
  define q where "q = float64 (of_int nsec / 1000000000)"
  have "(of_int nsec :: rat) \<le> of_int 999999999" using n1 by (simp only: of_int_le_iff)
  then have "(of_int nsec :: rat) / 1000000000 \<le> of_int (2 ^ 30 - 1) / 2 ^ 30" by simp
  moreover have "(of_int 0 :: rat) / 2 ^ 30 \<le> of_int nsec / 1000000000" using n0 by simp
  ultimately have q: "of_int 0 / 2 ^ 30 \<le> q \<and> q \<le> of_int (2 ^ 30 - 1) / 2 ^ 30"
    unfolding q_def by (intro float64_between_dyadic) simp_all
  have b: "(sec + 1) * 2 ^ 30 - 1 < 2 ^ 53" using sec1 by simp
  have a: "0 \<le> sec * 2 ^ 30" using sec0 by simp
  have lo: "of_int (sec * 2 ^ 30) / 2 ^ 30 \<le> of_int sec + q" using q by simp
  have hi: "of_int sec + q \<le> of_int ((sec + 1) * 2 ^ 30 - 1) / 2 ^ 30"
    using q by (simp add: field_simps)
  have s: "of_int (sec * 2 ^ 30) / 2 ^ 30 \<le> float64 (of_int sec + q)
         \<and> float64 (of_int sec + q) \<le> of_int ((sec + 1) * 2 ^ 30 - 1) / 2 ^ 30"
    using a b lo hi by (rule float64_between_dyadic)
  have "of_int ((sec + 1) * 2 ^ 30 - 1) / 2 ^ 30 < (of_int sec :: rat) + 1"
    by (simp add: field_simps)
  with s have "of_int sec \<le> float64 (of_int sec + q) \<and> float64 (of_int sec + q) < of_int sec + 1"
    by simp
  moreover have "Seconds d = float64 (of_int sec + q)"
    using assms(1)
    by (simp add: Seconds_def Let_def quo_pos rem_pos Second_def float64_billion
        fsec [unfolded sec_def Second_def] fnsec [unfolded nsec_def Second_def] q_def sec_def nsec_def)
  ultimately show ?thesis by (simp add: sec_def)
qed

lemma int_of_float_Seconds_exact:
  assumes "0 < d" and "d < 2 ^ 23 * Second"
  shows "int_of_float (Seconds d) = d div Second"
proof -
  note b = Seconds_below [OF assms]
  have "0 \<le> d div Second" using assms(1) by (simp add: Second_def pos_imp_zdiv_nonneg_iff)
  then have "(0::rat) \<le> of_int (d div Second)" by simp
  with b have "0 \<le> Seconds d" by linarith
  then have "int_of_float (Seconds d) = \<lfloor>Seconds d\<rfloor>" by (simp add: int_of_float_def)
  moreover have "\<lfloor>Seconds d\<rfloor> = d div Second" using b by (simp add: floor_eq_iff)
  ultimately show ?thesis by simp
qed

lemma digit_not_minus: "d < 10 \<Longrightarrow> digit d \<noteq> CHR ''-''"
proof -
  assume "d < 10"
  then have "d \<in> {0, 1, 2, 3, 4, 5, 6, 7, 8, 9}" by auto
  then show ?thesis by (auto simp: digit_def)
qed

lemma digits_no_minus: "CHR ''-'' \<notin> set (digits n)"
proof (induction n rule: digits.induct)
  case (1 n)
  show ?case
  proof (cases "n < 10")
    case True
    then show ?thesis using digit_not_minus [of n] by (subst digits.simps) simp
  next
    case False
    have "n mod 10 < 10" by simp
    then have "digit (n mod 10) \<noteq> CHR ''-''" by (rule digit_not_minus)
    then show ?thesis using False 1 by (subst digits.simps) auto
  qed
qed

lemma Itoa_nonneg_not_minus_one: "0 \<le> i \<Longrightarrow> Itoa i \<noteq> ''-1''"
proof
  assume "0 \<le> i" and "Itoa i = ''-1''"
  then have "digits (nat i) = ''-1''" by (simp add: Itoa_def)
  then have "CHR ''-'' \<in> set (digits (nat i))" by simp
  then show False using digits_no_minus by blast
qed

lemma Until_le_0: "(Until t now \<le> 0) = (t \<le> now)"
  by (auto simp: Until_def minDuration_def maxDuration_def)

lemma Until_bounds: "minDuration \<le> Until t now \<and> Until t now \<le> maxDuration"
  by (auto simp: Until_def minDuration_def maxDuration_def)

lemma Until_exact: "minDuration \<le> t - now \<Longrightarrow> t - now \<le> maxDuration \<Longrightarrow> Until t now = t - now"
  by (simp add: Until_def)

section \<open>Facts about the operations\<close>

lemma wrap64_id: "minDuration \<le> x \<Longrightarrow> x \<le> maxDuration \<Longrightarrow> wrap64 x = x"
  by (simp add: wrap64_def minDuration_def maxDuration_def)

lemma Expire_absent: "data s k = None \<Longrightarrow> Expire k seconds now s = (''ERR data not found'', s)"
  by (simp add: Expire_def)

lemma Expire_present:
  "data s k = Some e \<Longrightarrow>
   Expire k seconds now s =
     (''OK'', s\<lparr>data := (data s)(k \<mapsto> e\<lparr>expiresAt := now + wrap64 (Second * seconds)\<rparr>)\<rparr>)"
  by (simp add: Expire_def Add_def)

lemma Set_result:
  "Set k v now s =
     (''OK'', s\<lparr>data := (data s)(k \<mapsto> \<lparr>value_field = v, expiresAt = now + 5 * Second\<rparr>)\<rparr>)"
  by (simp add: Set_def Expire_def Add_def wrap64_def Second_def)

lemma TTL_absent: "data s k = None \<Longrightarrow> TTL k now s = (''-1'', s)"
  by (simp add: TTL_def)

lemma TTL_never: "data s k = Some e \<Longrightarrow> IsZero (expiresAt e) \<Longrightarrow> TTL k now s = (''Data never expires'', s)"
  by (simp add: TTL_def)

lemma TTL_expired:
  "data s k = Some e \<Longrightarrow> \<not> IsZero (expiresAt e) \<Longrightarrow> expiresAt e \<le> now \<Longrightarrow>
   TTL k now s = (''-1'', s\<lparr>data := (data s)(k := None)\<rparr>)"
  by (simp add: TTL_def Until_le_0)

lemma TTL_live:
  "data s k = Some e \<Longrightarrow> \<not> IsZero (expiresAt e) \<Longrightarrow> now < expiresAt e \<Longrightarrow>
   TTL k now s = (Itoa (int_of_float (Seconds (Until (expiresAt e) now))), s)"
  by (simp add: TTL_def Until_le_0 Let_def)

lemma Until_pos: "now < t \<Longrightarrow> 0 < Until t now"
  using Until_le_0 [of t now] by simp

lemma remaining_seconds:
  assumes "now < t"
  shows "Until t now div Second \<le> int_of_float (Seconds (Until t now))
       \<and> int_of_float (Seconds (Until t now)) \<le> Until t now div Second + 1
       \<and> 0 \<le> int_of_float (Seconds (Until t now))"
proof -
  have p: "0 < Until t now" using assms by (rule Until_pos)
  have m: "Until t now \<le> maxDuration" using Until_bounds by simp
  have "0 \<le> Until t now div Second" using p by (simp add: Second_def pos_imp_zdiv_nonneg_iff)
  then show ?thesis using int_of_float_Seconds [OF p m] by simp
qed

lemma remaining_seconds_exact:
  assumes "now < t" and "Until t now < 2 ^ 23 * Second"
  shows "int_of_float (Seconds (Until t now)) = Until t now div Second"
  using Until_pos [OF assms(1)] assms(2) by (rule int_of_float_Seconds_exact)

lemma TTL_live_not_minus_one:
  assumes "data s k = Some e" and "IsZero (expiresAt e) \<or> now < expiresAt e"
  shows "fst (TTL k now s) \<noteq> ''-1'' \<and> snd (TTL k now s) = s"
proof (cases "IsZero (expiresAt e)")
  case True
  then show ?thesis using assms(1) by (simp add: TTL_never)
next
  case False
  with assms(2) have l: "now < expiresAt e" by simp
  have "0 \<le> int_of_float (Seconds (Until (expiresAt e) now))"
    using remaining_seconds [OF l] by simp
  then have "Itoa (int_of_float (Seconds (Until (expiresAt e) now))) \<noteq> ''-1''"
    by (rule Itoa_nonneg_not_minus_one)
  then show ?thesis using TTL_live [OF assms(1) False l] by simp
qed

lemma Get_absent: "data s k = None \<Longrightarrow> Get k now s = (''ERR data doesn't exist'', s)"
  by (simp add: Get_def)

lemma Get_live:
  assumes "data s k = Some e" and "IsZero (expiresAt e) \<or> now < expiresAt e"
  shows "Get k now s = (value_field e, s)"
  using TTL_live_not_minus_one [OF assms] assms(1)
  by (simp add: Get_def split_beta)

lemma Get_expired:
  assumes "data s k = Some e" and "\<not> IsZero (expiresAt e)" and "expiresAt e \<le> now"
  shows "Get k now s = (''ERR data expired'', s\<lparr>data := (data s)(k := None)\<rparr>)"
  using TTL_expired [OF assms] assms(1)
  by (simp add: Get_def)

lemma cleanup_lookup:
  "data (cleanup now s) k =
     (case data s k of
        None \<Rightarrow> None
      | Some v \<Rightarrow> if expiresAt v \<noteq> 0 \<and> expiresAt v < now then None else Some v)"
  by (simp add: cleanup_def cleanup_entry_def IsZero_def After_def split: option.splits)

lemma cleanup_entry_other: "k' \<noteq> k \<Longrightarrow> cleanup_entry now k m k' = m k'"
  by (simp add: cleanup_entry_def split: option.splits)

lemma cleanup_entry_self:
  "cleanup_entry now k m k =
     (case m k of
        None \<Rightarrow> None
      | Some v \<Rightarrow> if \<not> IsZero (expiresAt v) \<and> After now (expiresAt v) then None else Some v)"
  by (simp add: cleanup_entry_def split: option.splits)

lemma cleanup_entry_twice: "cleanup_entry now k (cleanup_entry now a m) k = cleanup_entry now k m k"
proof (cases "a = k")
  case True
  then show ?thesis
    by (simp add: cleanup_entry_self split: option.splits)
next
  case False
  then show ?thesis
    by (simp add: cleanup_entry_self [of now k] cleanup_entry_other)
qed

lemma fold_cleanup_entry_lookup:
  "fold (cleanup_entry now) ks m k = (if k \<in> set ks then cleanup_entry now k m k else m k)"
proof (induction ks arbitrary: m)
  case Nil
  then show ?case by simp
next
  case (Cons a ks)
  show ?case
  proof (cases "a = k")
    case True
    then show ?thesis
      by (simp add: Cons.IH cleanup_entry_twice)
  next
    case False
    then show ?thesis
      by (simp add: Cons.IH cleanup_entry_twice cleanup_entry_other)
  qed
qed

lemma cleanup_keys_eq: "dom (data s) \<subseteq> set ks \<Longrightarrow> cleanup_keys now ks s = cleanup now s"
proof -
  assume d: "dom (data s) \<subseteq> set ks"
  have "fold (cleanup_entry now) ks (data s) k = cleanup_entry now k (data s) k" for k
  proof (cases "k \<in> set ks")
    case True
    then show ?thesis by (simp add: fold_cleanup_entry_lookup)
  next
    case False
    with d have "data s k = None" by blast
    then show ?thesis using False by (simp add: fold_cleanup_entry_lookup cleanup_entry_def)
  qed
  then show ?thesis by (simp add: cleanup_keys_def cleanup_def fun_eq_iff)
qed

lemma Get_after_Set_value:
  assumes "now1 - now0 < 5 * Second"
  shows "fst (Get k now1 (snd (Set k v now0 s))) = v"
proof -
  define e where "e = \<lparr>value_field = v, expiresAt = now0 + 5 * Second\<rparr>"
  have d: "data (snd (Set k v now0 s)) k = Some e" by (simp add: Set_result e_def)
  have "now1 < expiresAt e" using assms by (simp add: e_def)
  then have "Get k now1 (snd (Set k v now0 s)) = (value_field e, snd (Set k v now0 s))"
    using d by (intro Get_live) simp_all
  then show ?thesis by (simp add: e_def)
qed

lemma Seconds_rounds_down_example: "int_of_float (Seconds 4999999999) = 4"
  by code_simp

lemma Seconds_rounds_up_example: "int_of_float (Seconds 16777216999999999) = 16777217"
  by code_simp

section \<open>Properties of the store and the dispatcher\<close>

text \<open>
  \<^bold>\<open>C1.\<close> Let the entry of \<open>k\<close> in \<open>s1\<close> be the one that \<open>Set k v\<close> wrote at the instant
  \<open>now0\<close> (nothing has modified it since), the clock reading \<open>now0\<close> being after the zero
  instant, as every reading of a real clock is. Once the clock is at or past its
  expiration, at \<open>now1\<close>, the first \<open>Get k\<close> answers \<^verbatim>\<open>ERR data expired\<close> and removes the
  entry, and only it; a \<open>Get k\<close> that follows, at any instant \<open>now2\<close>, answers
  \<^verbatim>\<open>ERR data doesn't exist\<close>, not \<^verbatim>\<open>ERR data expired\<close> again.
\<close>

theorem Get_after_default_TTL_expires_once:
  assumes "0 < now0"
    and "data s1 k = data (snd (Set k v now0 s0)) k"
    and "now0 + 5 * Second \<le> now1"
  shows "Get k now1 s1 = (''ERR data expired'', s1\<lparr>data := (data s1)(k := None)\<rparr>)
       \<and> data (snd (Get k now1 s1)) k = None
       \<and> Get k now2 (snd (Get k now1 s1)) = (''ERR data doesn't exist'', snd (Get k now1 s1))"
proof -
  define e where "e = \<lparr>value_field = v, expiresAt = now0 + 5 * Second\<rparr>"
  have d: "data s1 k = Some e" using assms(2) by (simp add: Set_result e_def)
  have z: "\<not> IsZero (expiresAt e)" using assms(1) by (simp add: e_def IsZero_def Second_def)
  have x: "expiresAt e \<le> now1" using assms(3) by (simp add: e_def)
  have g: "Get k now1 s1 = (''ERR data expired'', s1\<lparr>data := (data s1)(k := None)\<rparr>)"
    using d z x by (rule Get_expired)
  then have n: "data (snd (Get k now1 s1)) k = None" by simp
  show ?thesis using g n Get_absent [OF n] by simp
qed

theorem Get_after_default_TTL_expires_once_witness:
  "(0::int) < 100 \<and> (100::int) + 5 * Second \<le> 5000000100
   \<and> Get ''k'' 5000000100 (snd (Set ''k'' ''v'' 100 \<lparr>data = Map.empty\<rparr>))
       = (''ERR data expired'', \<lparr>data = Map.empty\<rparr>)
   \<and> Get ''k'' 5000000100 (snd (Get ''k'' 5000000100 (snd (Set ''k'' ''v'' 100 \<lparr>data = Map.empty\<rparr>))))
       = (''ERR data doesn't exist'', \<lparr>data = Map.empty\<rparr>)"
  using Get_after_default_TTL_expires_once
    [of 100 "snd (Set ''k'' ''v'' 100 \<lparr>data = Map.empty\<rparr>)" "''k''" "''v''" "\<lparr>data = Map.empty\<rparr>"
        5000000100 5000000100]
  by (simp add: Second_def Set_result Get_absent)

text \<open>
  \<^bold>\<open>C2.\<close> \<open>Set k v\<close> at the instant \<open>now0\<close> followed by \<open>Get k\<close> at the instant \<open>now1\<close>
  returns \<open>v\<close>, provided less than the default five seconds have elapsed in between.
\<close>

theorem Get_after_Set_returns_value:
  assumes "now1 - now0 < 5 * Second"
  shows "fst (Get k now1 (snd (Set k v now0 s))) = v"
  using assms by (rule Get_after_Set_value)

theorem Get_after_Set_returns_value_witness:
  "(4999999999::int) - 0 < 5 * Second
   \<and> fst (Get ''foo'' 4999999999 (snd (Set ''foo'' ''bar'' 0 \<lparr>data = Map.empty\<rparr>))) = ''bar''"
  using Get_after_Set_returns_value [of 4999999999 0 "''foo''" "''bar''" "\<lparr>data = Map.empty\<rparr>"]
  by (simp add: Second_def)

text \<open>
  \<^bold>\<open>C3.\<close> The four cases of \<open>TTL k\<close>. An absent key gives \<^verbatim>\<open>-1\<close>; an entry whose expiration
  is unset gives \<^verbatim>\<open>Data never expires\<close>; an entry with \<open>expiresAt - now \<le> 0\<close> is deleted and
  the answer is \<^verbatim>\<open>-1\<close>; otherwise the store is left as it is and the answer is the decimal
  rendering of a whole number of seconds obtained from the positive remaining duration
  \<^verbatim>\<open>time.Until(expiresAt)\<close>: a number that is not negative and lies between the
  remaining seconds rounded down and rounded up. The conversion goes through
  \<^verbatim>\<open>float64\<close>: below \<open>2 ^ 23\<close> seconds (some 97 days) the number is the remaining
  seconds rounded down, as in \<open>Seconds_rounds_down_example\<close>; for longer durations it
  may be the next whole number, as in \<open>Seconds_rounds_up_example\<close>.
\<close>

theorem TTL_cases:
  "(data s k = None \<longrightarrow> TTL k now s = (''-1'', s))
   \<and> (data s k = Some e \<and> IsZero (expiresAt e) \<longrightarrow> TTL k now s = (''Data never expires'', s))
   \<and> (data s k = Some e \<and> \<not> IsZero (expiresAt e) \<and> expiresAt e - now \<le> 0 \<longrightarrow>
        TTL k now s = (''-1'', s\<lparr>data := (data s)(k := None)\<rparr>))
   \<and> (data s k = Some e \<and> \<not> IsZero (expiresAt e) \<and> 0 < expiresAt e - now \<longrightarrow>
        TTL k now s = (Itoa (int_of_float (Seconds (Until (expiresAt e) now))), s)
        \<and> 0 < Until (expiresAt e) now
        \<and> 0 \<le> int_of_float (Seconds (Until (expiresAt e) now))
        \<and> Until (expiresAt e) now div Second \<le> int_of_float (Seconds (Until (expiresAt e) now))
        \<and> int_of_float (Seconds (Until (expiresAt e) now)) \<le> Until (expiresAt e) now div Second + 1
        \<and> (Until (expiresAt e) now < 2 ^ 23 * Second \<longrightarrow>
             int_of_float (Seconds (Until (expiresAt e) now)) = Until (expiresAt e) now div Second))"
proof (intro conjI impI)
  assume "data s k = None"
  then show "TTL k now s = (''-1'', s)" by (rule TTL_absent)
next
  assume "data s k = Some e \<and> IsZero (expiresAt e)"
  then show "TTL k now s = (''Data never expires'', s)" by (simp add: TTL_never)
next
  assume "data s k = Some e \<and> \<not> IsZero (expiresAt e) \<and> expiresAt e - now \<le> 0"
  then show "TTL k now s = (''-1'', s\<lparr>data := (data s)(k := None)\<rparr>)" by (simp add: TTL_expired)
next
  assume a: "data s k = Some e \<and> \<not> IsZero (expiresAt e) \<and> 0 < expiresAt e - now"
  then have l: "now < expiresAt e" by simp
  show "TTL k now s = (Itoa (int_of_float (Seconds (Until (expiresAt e) now))), s)"
    using a l by (simp add: TTL_live)
  show "0 < Until (expiresAt e) now" using l by (rule Until_pos)
  show "0 \<le> int_of_float (Seconds (Until (expiresAt e) now))"
    using remaining_seconds [OF l] by simp
  show "Until (expiresAt e) now div Second \<le> int_of_float (Seconds (Until (expiresAt e) now))"
    using remaining_seconds [OF l] by simp
  show "int_of_float (Seconds (Until (expiresAt e) now)) \<le> Until (expiresAt e) now div Second + 1"
    using remaining_seconds [OF l] by simp
  show "int_of_float (Seconds (Until (expiresAt e) now)) = Until (expiresAt e) now div Second"
    if "Until (expiresAt e) now < 2 ^ 23 * Second"
    using l that by (rule remaining_seconds_exact)
qed

theorem TTL_cases_witness:
  "data \<lparr>data = Map.empty\<rparr> ''k'' = None
   \<and> TTL ''k'' 100 \<lparr>data = Map.empty\<rparr> = (''-1'', \<lparr>data = Map.empty\<rparr>)
   \<and> IsZero (expiresAt \<lparr>value_field = ''v'', expiresAt = 0\<rparr>)
   \<and> TTL ''k'' 100 \<lparr>data = [''k'' \<mapsto> \<lparr>value_field = ''v'', expiresAt = 0\<rparr>]\<rparr>
       = (''Data never expires'', \<lparr>data = [''k'' \<mapsto> \<lparr>value_field = ''v'', expiresAt = 0\<rparr>]\<rparr>)
   \<and> \<not> IsZero (expiresAt \<lparr>value_field = ''v'', expiresAt = 100\<rparr>)
   \<and> TTL ''k'' 100 \<lparr>data = [''k'' \<mapsto> \<lparr>value_field = ''v'', expiresAt = 100\<rparr>]\<rparr>
       = (''-1'', \<lparr>data = Map.empty\<rparr>)
   \<and> (0::int) < 2500000100 - 100
   \<and> TTL ''k'' 100 \<lparr>data = [''k'' \<mapsto> \<lparr>value_field = ''v'', expiresAt = 2500000100\<rparr>]\<rparr>
       = (''2'', \<lparr>data = [''k'' \<mapsto> \<lparr>value_field = ''v'', expiresAt = 2500000100\<rparr>]\<rparr>)
   \<and> (2500000000::int) < 2 ^ 23 * Second
   \<and> int_of_float (Seconds 2500000000) = 2"
  using TTL_cases [where s = "\<lparr>data = Map.empty\<rparr>" and k = "''k''" and now = 100]
    TTL_cases [where s = "\<lparr>data = [''k'' \<mapsto> \<lparr>value_field = ''v'', expiresAt = 0\<rparr>]\<rparr>"
      and k = "''k''" and e = "\<lparr>value_field = ''v'', expiresAt = 0\<rparr>" and now = 100]
    TTL_cases [where s = "\<lparr>data = [''k'' \<mapsto> \<lparr>value_field = ''v'', expiresAt = 100\<rparr>]\<rparr>"
      and k = "''k''" and e = "\<lparr>value_field = ''v'', expiresAt = 100\<rparr>" and now = 100]
    TTL_cases [where s = "\<lparr>data = [''k'' \<mapsto> \<lparr>value_field = ''v'', expiresAt = 2500000100\<rparr>]\<rparr>"
      and k = "''k''" and e = "\<lparr>value_field = ''v'', expiresAt = 2500000100\<rparr>" and now = 100]
  by (simp add: IsZero_def Until_def minDuration_def maxDuration_def Second_def Itoa_def
      digits.simps [of 2] digit_def)

text \<open>
  \<^bold>\<open>C4.\<close> A sweep is to delete every entry whose expiration is set and \<open>\<le> now\<close>. The loop
  of \<^verbatim>\<open>cleanup\<close> tests \<^verbatim>\<open>now.After(v.expiresAt)\<close>, which is strict (\<open>cleanup_lookup\<close>): an
  entry that expires exactly at the clock reading of the sweep survives it, although
  \<^verbatim>\<open>TTL\<close> and \<^verbatim>\<open>Get\<close>, which test \<^verbatim>\<open>diff <= 0\<close>, treat the same entry at the same
  instant as expired and delete it.
\<close>

theorem cleanup_keeps_entry_expiring_now:
  "data (cleanup 100 \<lparr>data = [''k'' \<mapsto> \<lparr>value_field = ''v'', expiresAt = 100\<rparr>]\<rparr>) ''k''
     = Some \<lparr>value_field = ''v'', expiresAt = 100\<rparr>
   \<and> TTL ''k'' 100 \<lparr>data = [''k'' \<mapsto> \<lparr>value_field = ''v'', expiresAt = 100\<rparr>]\<rparr>
     = (''-1'', \<lparr>data = Map.empty\<rparr>)
   \<and> Get ''k'' 100 \<lparr>data = [''k'' \<mapsto> \<lparr>value_field = ''v'', expiresAt = 100\<rparr>]\<rparr>
     = (''ERR data expired'', \<lparr>data = Map.empty\<rparr>)"
  by (simp add: cleanup_lookup TTL_expired Get_expired IsZero_def)

text \<open>
  \<^bold>\<open>C5.\<close> \<open>Set k v\<close> always answers \<^verbatim>\<open>OK\<close> and leaves the store with the entry of \<open>k\<close>
  holding \<open>v\<close> and expiring five seconds after the clock reading of the call, all other
  keys as they were. No operation other than \<open>Expire\<close> (and a further \<open>Set\<close>) changes
  the entry of a key that it leaves in the store: after \<open>Get\<close>, \<open>TTL\<close>, \<open>Exists\<close>,
  \<open>Del\<close> and \<open>cleanup\<close> the entry of \<open>k\<close> is either gone or what it was.
\<close>

theorem Set_establishes_default_expiry:
  "Set k v now s
     = (''OK'', s\<lparr>data := (data s)(k \<mapsto> \<lparr>value_field = v, expiresAt = now + 5 * Second\<rparr>)\<rparr>)
   \<and> data (snd (Set k v now s)) k = Some \<lparr>value_field = v, expiresAt = now + 5 * Second\<rparr>
   \<and> data (snd (Get k' t s')) k \<in> {None, data s' k}
   \<and> data (snd (TTL k' t s')) k \<in> {None, data s' k}
   \<and> data (snd (Exists k' s')) k = data s' k
   \<and> data (Del k' s') k \<in> {None, data s' k}
   \<and> data (cleanup t s') k \<in> {None, data s' k}"
proof -
  have t: "snd (TTL k' t s') = s' \<or> snd (TTL k' t s') = s'\<lparr>data := (data s')(k' := None)\<rparr>"
    by (simp add: TTL_def Let_def split: option.splits)
  have g: "snd (Get k' t s') = snd (TTL k' t s') \<or> snd (Get k' t s') = s'"
    by (simp add: Get_def split_beta split: option.splits)
  have "data (snd (TTL k' t s')) k \<in> {None, data s' k}" using t by auto
  moreover have "data (snd (Get k' t s')) k \<in> {None, data s' k}" using t g by auto
  moreover have "data (cleanup t s') k \<in> {None, data s' k}"
    by (simp add: cleanup_lookup split: option.splits)
  ultimately show ?thesis by (simp add: Set_result Exists_def Del_def)
qed

text \<open>
  \<^bold>\<open>C6\<close> has \<open>Expire k seconds\<close> on a present key set the expiration to
  \<open>now + seconds\<close> for every integer \<open>seconds\<close>. The duration is the 64-bit product
  \<^verbatim>\<open>time.Second * time.Duration(seconds)\<close>, which wraps around: with
  \<open>seconds = 9223372037\<close> (some 292 years) the expiration lands 292 years in the past.
\<close>

theorem Expire_seconds_overflow_counterexample:
  "Expire ''k'' 9223372037 63900000000000000000
       \<lparr>data = [''k'' \<mapsto> \<lparr>value_field = ''v'', expiresAt = 0\<rparr>]\<rparr>
     = (''OK'', \<lparr>data = [''k'' \<mapsto> \<lparr>value_field = ''v'',
                                    expiresAt = 63900000000000000000 - 9223372036709551616\<rparr>]\<rparr>)
   \<and> (63900000000000000000::int) - 9223372036709551616 \<noteq> 63900000000000000000 + 9223372037 * Second"
  by (simp add: Expire_def Add_def wrap64_def Second_def)

text \<open>
  \<^bold>\<open>C6\<close>, amended. On an absent key \<open>Expire k seconds\<close> answers \<^verbatim>\<open>ERR data not found\<close> and
  leaves the store as it is (it creates no key). On a present key, when \<open>seconds\<close>
  seconds are a number of nanoseconds that a \<^verbatim>\<open>time.Duration\<close> holds, it answers \<^verbatim>\<open>OK\<close>
  and sets the expiration of that entry to \<open>now + seconds\<close>, leaving the payload of the
  entry and all other keys unchanged.
\<close>

theorem Expire_cases:
  "(data s k = None \<longrightarrow> Expire k seconds now s = (''ERR data not found'', s))
   \<and> (data s k = Some e \<and> minDuration \<le> seconds * Second \<and> seconds * Second \<le> maxDuration \<longrightarrow>
        Expire k seconds now s
          = (''OK'', s\<lparr>data := (data s)(k \<mapsto> e\<lparr>expiresAt := now + seconds * Second\<rparr>)\<rparr>))"
  by (simp add: Expire_absent Expire_present wrap64_id mult.commute)

theorem Expire_cases_witness:
  "data \<lparr>data = Map.empty\<rparr> ''k'' = None
   \<and> Expire ''k'' 10 100 \<lparr>data = Map.empty\<rparr> = (''ERR data not found'', \<lparr>data = Map.empty\<rparr>)
   \<and> minDuration \<le> 10 * Second \<and> 10 * Second \<le> maxDuration
   \<and> Expire ''k'' 10 100 \<lparr>data = [''k'' \<mapsto> \<lparr>value_field = ''v'', expiresAt = 7\<rparr>]\<rparr>
       = (''OK'', \<lparr>data = [''k'' \<mapsto> \<lparr>value_field = ''v'', expiresAt = 10000000100\<rparr>]\<rparr>)"
  using Expire_cases [where s = "\<lparr>data = Map.empty\<rparr>" and k = "''k''" and seconds = 10 and now = 100]
    Expire_cases [where s = "\<lparr>data = [''k'' \<mapsto> \<lparr>value_field = ''v'', expiresAt = 7\<rparr>]\<rparr>"
      and k = "''k''" and e = "\<lparr>value_field = ''v'', expiresAt = 7\<rparr>" and seconds = 10 and now = 100]
  by (simp add: minDuration_def maxDuration_def Second_def)

text \<open>
  \<^bold>\<open>C7\<close> has every known verb with the wrong number of arguments yield an
  argument-count error naming the command. \<^verbatim>\<open>PING\<close>, which takes no argument, has no
  such check: it answers \<^verbatim>\<open>PONG\<close> whatever the arguments are.
\<close>

theorem Execute_PING_with_argument_counterexample:
  "Execute ''PING'' [''extra''] 100 \<lparr>data = Map.empty\<rparr> = (''PONG'', \<lparr>data = Map.empty\<rparr>)
   \<and> fst (Execute ''PING'' [''extra''] 100 \<lparr>data = Map.empty\<rparr>)
       \<noteq> ''ERR wrong number of arguments for 'ping' command''"
  by (simp add: Execute_def)

text \<open>
  \<^bold>\<open>C7\<close>, amended. A verb outside \<^verbatim>\<open>PING\<close>, \<^verbatim>\<open>SET\<close>, \<^verbatim>\<open>GET\<close>, \<^verbatim>\<open>DEL\<close>, \<^verbatim>\<open>EXISTS\<close> yields
  \<^verbatim>\<open>ERR unknown command\<close>; \<^verbatim>\<open>PING\<close> yields \<^verbatim>\<open>PONG\<close> with any arguments; \<^verbatim>\<open>SET\<close> without
  exactly two arguments, and \<^verbatim>\<open>GET\<close>, \<^verbatim>\<open>DEL\<close>, \<^verbatim>\<open>EXISTS\<close> without exactly one, yield the
  argument-count error naming the command; otherwise \<^verbatim>\<open>SET k v\<close> performs \<open>Set\<close> and
  yields \<^verbatim>\<open>OK\<close>, \<^verbatim>\<open>DEL k\<close> performs \<open>Del\<close> and yields \<^verbatim>\<open>OK\<close>, \<^verbatim>\<open>EXISTS k\<close> yields
  \<^verbatim>\<open>Yes\<close> or \<^verbatim>\<open>No\<close> by the presence of the key, and \<^verbatim>\<open>GET k\<close> yields the answer of
  \<open>Get\<close> whenever that answer is not the empty string: the stored payload,
  \<^verbatim>\<open>ERR data expired\<close>, or \<^verbatim>\<open>ERR data doesn't exist\<close> for an absent key.
\<close>

theorem Execute_cases:
  "(command \<notin> {''PING'', ''SET'', ''GET'', ''DEL'', ''EXISTS''} \<longrightarrow>
      Execute command args now s = (''ERR unknown command'', s))
   \<and> Execute ''PING'' args now s = (''PONG'', s)
   \<and> (length args \<noteq> 2 \<longrightarrow>
        Execute ''SET'' args now s = (''ERR wrong number of arguments for 'set' command'', s))
   \<and> (length args \<noteq> 1 \<longrightarrow>
        Execute ''GET'' args now s = (''ERR wrong number of arguments for 'get' command'', s)
        \<and> Execute ''DEL'' args now s = (''ERR wrong number of arguments for 'del' command'', s)
        \<and> Execute ''EXISTS'' args now s = (''ERR wrong number of arguments for 'exists' command'', s))
   \<and> Execute ''SET'' [k, v] now s = (''OK'', snd (Set k v now s))
   \<and> Execute ''DEL'' [k] now s = (''OK'', Del k s)
   \<and> Execute ''EXISTS'' [k] now s = (if k \<in> dom (data s) then ''Yes'' else ''No'', s)
   \<and> (fst (Get k now s) \<noteq> '''' \<longrightarrow> Execute ''GET'' [k] now s = Get k now s)
   \<and> (data s k = None \<longrightarrow> fst (Get k now s) = ''ERR data doesn't exist'')
   \<and> (data s k = Some e \<longrightarrow> fst (Get k now s) \<in> {value_field e, ''ERR data expired''})"
proof -
  have g: "fst (Get k now s) \<in> {value_field e, ''ERR data expired''}" if "data s k = Some e"
    using that by (simp add: Get_def split_beta)
  have x: "Execute ''GET'' [k] now s = Get k now s" if "fst (Get k now s) \<noteq> ''''"
    using that by (simp add: Execute_def split_beta)
  have e: "Execute ''EXISTS'' [k] now s = (if k \<in> dom (data s) then ''Yes'' else ''No'', s)"
    by (auto simp: Execute_def Exists_def)
  have u: "Execute command args now s = (''ERR unknown command'', s)"
    if "command \<notin> {''PING'', ''SET'', ''GET'', ''DEL'', ''EXISTS''}"
    using that by (simp add: Execute_def)
  show ?thesis
    using g x e u by (simp add: Execute_def Get_absent)
qed

theorem Execute_cases_witness:
  "''BOGUS'' \<notin> {''PING'', ''SET'', ''GET'', ''DEL'', ''EXISTS''}
   \<and> Execute ''BOGUS'' [] 100 \<lparr>data = Map.empty\<rparr> = (''ERR unknown command'', \<lparr>data = Map.empty\<rparr>)
   \<and> length [''onlykey''] \<noteq> 2
   \<and> Execute ''SET'' [''onlykey''] 100 \<lparr>data = Map.empty\<rparr>
       = (''ERR wrong number of arguments for 'set' command'', \<lparr>data = Map.empty\<rparr>)
   \<and> length ([] :: string list) \<noteq> 1
   \<and> Execute ''GET'' [] 100 \<lparr>data = Map.empty\<rparr>
       = (''ERR wrong number of arguments for 'get' command'', \<lparr>data = Map.empty\<rparr>)
   \<and> Execute ''DEL'' [] 100 \<lparr>data = Map.empty\<rparr>
       = (''ERR wrong number of arguments for 'del' command'', \<lparr>data = Map.empty\<rparr>)
   \<and> Execute ''EXISTS'' [] 100 \<lparr>data = Map.empty\<rparr>
       = (''ERR wrong number of arguments for 'exists' command'', \<lparr>data = Map.empty\<rparr>)
   \<and> data \<lparr>data = Map.empty\<rparr> ''missing'' = None
   \<and> fst (Get ''missing'' 100 \<lparr>data = Map.empty\<rparr>) \<noteq> ''''
   \<and> Execute ''GET'' [''missing''] 100 \<lparr>data = Map.empty\<rparr>
       = (''ERR data doesn't exist'', \<lparr>data = Map.empty\<rparr>)
   \<and> data \<lparr>data = [''name'' \<mapsto> \<lparr>value_field = ''John'', expiresAt = 200\<rparr>]\<rparr> ''name''
       = Some \<lparr>value_field = ''John'', expiresAt = 200\<rparr>
   \<and> fst (Get ''name'' 100 \<lparr>data = [''name'' \<mapsto> \<lparr>value_field = ''John'', expiresAt = 200\<rparr>]\<rparr>)
       \<in> {''John'', ''ERR data expired''}"
  using Execute_cases [where command = "''BOGUS''" and args = "[]" and now = 100
      and s = "\<lparr>data = Map.empty\<rparr>" and k = "''missing''" and v = "''v''"
      and e = "\<lparr>value_field = ''John'', expiresAt = 200\<rparr>"]
    Execute_cases [where command = "''BOGUS''" and args = "[''onlykey'']" and now = 100
      and s = "\<lparr>data = Map.empty\<rparr>" and k = "''missing''" and v = "''v''"
      and e = "\<lparr>value_field = ''John'', expiresAt = 200\<rparr>"]
    Execute_cases [where command = "''BOGUS''" and args = "[]" and now = 100 and k = "''name''"
      and s = "\<lparr>data = [''name'' \<mapsto> \<lparr>value_field = ''John'', expiresAt = 200\<rparr>]\<rparr>"
      and v = "''v''" and e = "\<lparr>value_field = ''John'', expiresAt = 200\<rparr>"]
  by (simp add: Get_absent)

text \<open>
  \<^bold>\<open>C8.\<close> \<open>Exists k\<close> is true exactly when \<open>k\<close> is a key of the map (rendered \<^verbatim>\<open>Yes\<close> by
  the dispatcher, \<^verbatim>\<open>No\<close> otherwise) and leaves the store alone; the expiration is not
  looked at, so for an entry that is present and already expired the answer is still
  \<^verbatim>\<open>Yes\<close>, while \<open>Get\<close> at the same instant answers \<^verbatim>\<open>ERR data expired\<close>.
\<close>

theorem Exists_raw_presence:
  "Exists k s = (k \<in> dom (data s), s)
   \<and> fst (Execute ''EXISTS'' [k] now s) = (if k \<in> dom (data s) then ''Yes'' else ''No'')
   \<and> (data s k = Some e \<and> \<not> IsZero (expiresAt e) \<and> expiresAt e \<le> now \<longrightarrow>
        fst (Exists k s) \<and> fst (Execute ''EXISTS'' [k] now s) = ''Yes''
        \<and> fst (Get k now s) = ''ERR data expired'')"
  by (auto simp: Exists_def Execute_def Get_expired)

theorem Exists_raw_presence_witness:
  "data \<lparr>data = [''k'' \<mapsto> \<lparr>value_field = ''v'', expiresAt = 50\<rparr>]\<rparr> ''k''
       = Some \<lparr>value_field = ''v'', expiresAt = 50\<rparr>
   \<and> \<not> IsZero (expiresAt \<lparr>value_field = ''v'', expiresAt = 50\<rparr>)
   \<and> expiresAt \<lparr>value_field = ''v'', expiresAt = 50\<rparr> \<le> 100
   \<and> fst (Exists ''k'' \<lparr>data = [''k'' \<mapsto> \<lparr>value_field = ''v'', expiresAt = 50\<rparr>]\<rparr>)
   \<and> fst (Execute ''EXISTS'' [''k''] 100 \<lparr>data = [''k'' \<mapsto> \<lparr>value_field = ''v'', expiresAt = 50\<rparr>]\<rparr>)
       = ''Yes''
   \<and> fst (Get ''k'' 100 \<lparr>data = [''k'' \<mapsto> \<lparr>value_field = ''v'', expiresAt = 50\<rparr>]\<rparr>)
       = ''ERR data expired''"
  using Exists_raw_presence [where k = "''k''" and now = 100
      and s = "\<lparr>data = [''k'' \<mapsto> \<lparr>value_field = ''v'', expiresAt = 50\<rparr>]\<rparr>"
      and e = "\<lparr>value_field = ''v'', expiresAt = 50\<rparr>"]
  by (simp add: IsZero_def)

text \<open>
  \<^bold>\<open>C9.\<close> The frame of \<open>Get\<close> and \<open>TTL\<close>. When \<open>k\<close> is absent, or present with its
  expiration unset or still in the future, the store after the call is the store before
  it. When \<open>k\<close> is present and expired, the store after the call is the store before it
  with \<open>k\<close> removed: \<open>k\<close> is gone and every other key has the entry it had.
\<close>

theorem Get_TTL_frame:
  "(data s k = None \<or> (\<exists>e. data s k = Some e \<and> (IsZero (expiresAt e) \<or> now < expiresAt e)) \<longrightarrow>
      snd (Get k now s) = s \<and> snd (TTL k now s) = s)
   \<and> ((\<exists>e. data s k = Some e \<and> \<not> IsZero (expiresAt e) \<and> expiresAt e \<le> now) \<longrightarrow>
        snd (Get k now s) = s\<lparr>data := (data s)(k := None)\<rparr>
        \<and> snd (TTL k now s) = s\<lparr>data := (data s)(k := None)\<rparr>
        \<and> data (snd (Get k now s)) k = None
        \<and> (\<forall>k'. k' \<noteq> k \<longrightarrow> data (snd (Get k now s)) k' = data s k'
                         \<and> data (snd (TTL k now s)) k' = data s k'))"
proof (intro conjI impI)
  assume a: "data s k = None \<or> (\<exists>e. data s k = Some e \<and> (IsZero (expiresAt e) \<or> now < expiresAt e))"
  show "snd (Get k now s) = s"
    using a by (auto simp: Get_absent Get_live)
  show "snd (TTL k now s) = s"
    using a by (auto simp: TTL_absent TTL_live_not_minus_one)
next
  assume "\<exists>e. data s k = Some e \<and> \<not> IsZero (expiresAt e) \<and> expiresAt e \<le> now"
  then obtain e where e: "data s k = Some e" "\<not> IsZero (expiresAt e)" "expiresAt e \<le> now"
    by blast
  note g = Get_expired [OF e] and t = TTL_expired [OF e]
  show "snd (Get k now s) = s\<lparr>data := (data s)(k := None)\<rparr>" by (simp add: g)
  show "snd (TTL k now s) = s\<lparr>data := (data s)(k := None)\<rparr>" by (simp add: t)
  show "data (snd (Get k now s)) k = None" by (simp add: g)
  show "\<forall>k'. k' \<noteq> k \<longrightarrow> data (snd (Get k now s)) k' = data s k'
                         \<and> data (snd (TTL k now s)) k' = data s k'"
    by (simp add: g t)
qed

theorem Get_TTL_frame_witness:
  "data \<lparr>data = [''a'' \<mapsto> \<lparr>value_field = ''v'', expiresAt = 50\<rparr>]\<rparr> ''k'' = None
   \<and> snd (Get ''k'' 100 \<lparr>data = [''a'' \<mapsto> \<lparr>value_field = ''v'', expiresAt = 50\<rparr>]\<rparr>)
       = \<lparr>data = [''a'' \<mapsto> \<lparr>value_field = ''v'', expiresAt = 50\<rparr>]\<rparr>
   \<and> snd (TTL ''k'' 100 \<lparr>data = [''a'' \<mapsto> \<lparr>value_field = ''v'', expiresAt = 50\<rparr>]\<rparr>)
       = \<lparr>data = [''a'' \<mapsto> \<lparr>value_field = ''v'', expiresAt = 50\<rparr>]\<rparr>
   \<and> data \<lparr>data = [''a'' \<mapsto> \<lparr>value_field = ''v'', expiresAt = 50\<rparr>]\<rparr> ''a''
       = Some \<lparr>value_field = ''v'', expiresAt = 50\<rparr>
   \<and> (10::int) < expiresAt \<lparr>value_field = ''v'', expiresAt = 50\<rparr>
   \<and> snd (Get ''a'' 10 \<lparr>data = [''a'' \<mapsto> \<lparr>value_field = ''v'', expiresAt = 50\<rparr>]\<rparr>)
       = \<lparr>data = [''a'' \<mapsto> \<lparr>value_field = ''v'', expiresAt = 50\<rparr>]\<rparr>
   \<and> snd (TTL ''a'' 10 \<lparr>data = [''a'' \<mapsto> \<lparr>value_field = ''v'', expiresAt = 50\<rparr>]\<rparr>)
       = \<lparr>data = [''a'' \<mapsto> \<lparr>value_field = ''v'', expiresAt = 50\<rparr>]\<rparr>
   \<and> \<not> IsZero (expiresAt \<lparr>value_field = ''v'', expiresAt = 50\<rparr>)
   \<and> expiresAt \<lparr>value_field = ''v'', expiresAt = 50\<rparr> \<le> 100
   \<and> snd (Get ''a'' 100 \<lparr>data = [''a'' \<mapsto> \<lparr>value_field = ''v'', expiresAt = 50\<rparr>]\<rparr>)
       = \<lparr>data = Map.empty\<rparr>
   \<and> snd (TTL ''a'' 100 \<lparr>data = [''a'' \<mapsto> \<lparr>value_field = ''v'', expiresAt = 50\<rparr>]\<rparr>)
       = \<lparr>data = Map.empty\<rparr>
   \<and> ''k'' \<noteq> ''a''
   \<and> data (snd (Get ''a'' 100 \<lparr>data = [''a'' \<mapsto> \<lparr>value_field = ''v'', expiresAt = 50\<rparr>]\<rparr>)) ''k''
       = None"
  using Get_TTL_frame [where k = "''k''" and now = 100
      and s = "\<lparr>data = [''a'' \<mapsto> \<lparr>value_field = ''v'', expiresAt = 50\<rparr>]\<rparr>"]
    Get_TTL_frame [where k = "''a''" and now = 10
      and s = "\<lparr>data = [''a'' \<mapsto> \<lparr>value_field = ''v'', expiresAt = 50\<rparr>]\<rparr>"]
    Get_TTL_frame [where k = "''a''" and now = 100
      and s = "\<lparr>data = [''a'' \<mapsto> \<lparr>value_field = ''v'', expiresAt = 50\<rparr>]\<rparr>"]
  by (simp add: IsZero_def)

text \<open>
  \<^bold>\<open>C10.\<close> With the empty string as payload the store and the dispatcher diverge:
  \<^verbatim>\<open>Execute("SET", [k, ""])\<close> answers \<^verbatim>\<open>OK\<close>, \<open>Get k\<close> within the five seconds returns the
  empty string, and \<^verbatim>\<open>Execute("GET", [k])\<close> on that live key answers
  \<^verbatim>\<open>ERR property doesn't exist in store\<close>.
\<close>

theorem empty_value_divergence:
  assumes "now1 - now0 < 5 * Second"
  shows "fst (Execute ''SET'' [k, ''''] now0 s) = ''OK''
       \<and> fst (Get k now1 (snd (Execute ''SET'' [k, ''''] now0 s))) = ''''
       \<and> fst (Execute ''GET'' [k] now1 (snd (Execute ''SET'' [k, ''''] now0 s)))
           = ''ERR property doesn't exist in store''"
proof -
  have s: "Execute ''SET'' [k, ''''] now0 s = (''OK'', snd (Set k '''' now0 s))"
    by (simp add: Execute_def)
  have g: "fst (Get k now1 (snd (Set k '''' now0 s))) = ''''"
    using assms by (rule Get_after_Set_value)
  show ?thesis using g by (simp add: s Execute_def split_beta)
qed

theorem empty_value_divergence_witness:
  "(1000::int) - 0 < 5 * Second
   \<and> fst (Execute ''SET'' [''k'', ''''] 0 \<lparr>data = Map.empty\<rparr>) = ''OK''
   \<and> fst (Get ''k'' 1000 (snd (Execute ''SET'' [''k'', ''''] 0 \<lparr>data = Map.empty\<rparr>))) = ''''
   \<and> fst (Execute ''GET'' [''k''] 1000 (snd (Execute ''SET'' [''k'', ''''] 0 \<lparr>data = Map.empty\<rparr>)))
       = ''ERR property doesn't exist in store''"
  using empty_value_divergence [of 1000 0 "''k''" "\<lparr>data = Map.empty\<rparr>"]
  by (simp add: Second_def)

end
